theory Spec2Isabelle
  imports Main "HOL-Library.AList"
begin

section \<open>Python values, objects and the store\<close>

text \<open>
  The values the method handles: booleans, integers, strings, \<open>None\<close> and dictionaries
  with string keys. A dictionary is an association list in insertion order; storing a key
  is \<open>AList.update\<close>, which overwrites an existing key in place and appends a new one,
  as a Python \<open>dict\<close> does.
\<close>

datatype py_value =
    VBool bool
  | VInt int
  | VStr string
  | VNone
  | VDict "(string \<times> py_value) list"

type_synonym py_dict = "(string \<times> py_value) list"

text \<open>A dictionary display \<open>{k1: v1, ..., kn: vn}\<close> stores its items from left to right.\<close>

definition dict_literal :: "(string \<times> py_value) list \<Rightarrow> py_dict" where
  "dict_literal kvs = foldl (\<lambda>d kv. AList.update (fst kv) (snd kv) d) [] kvs"

datatype error =
    ValueError string
  | AttributeError string

text \<open>
  Modelled from the spec: the class \<open>Options\<close> of
  \<open>selenium.webdriver.chrome.options\<close> is imported by the source and is not part of the
  repository. The spec (sections 3 and 9) describes what it holds: an open-ended
  dictionary of experimental options, of which \<open>prefs\<close> is the preferences map, and an
  ordered sequence of argument flags. The record lists the instance attributes that the
  constructor of the library class sets.
\<close>

record options =
  caps :: py_dict
  proxy :: py_value
  mobile_options :: py_value
  ignore_local_proxy :: bool
  arguments :: "string list"
  binary_location :: string
  extension_files :: "string list"
  extensions :: "string list"
  experimental_options :: py_dict
  debugger_address :: py_value

text \<open>
  An object of the store is an \<open>Options\<close> object or an instance of \<open>BrowserOptions\<close>,
  which declares no attribute of its own and so carries only the attribute dictionary
  that a caller may have filled.
\<close>

datatype pyobj =
    OptionsObj options
  | InstanceObj py_dict

type_synonym addr = nat

text \<open>
  The state of the interpreter: the objects allocated so far (a reference is the index of
  its object, and allocation appends), everything outside the interpreter that I/O could
  reach (files, network, environment variables), and the number of library calls made.
\<close>

record 'e pystate =
  heap :: "pyobj list"
  env :: 'e
  steps :: nat

type_synonym ('a, 'e) py = "'e pystate \<Rightarrow> (error + 'a) \<times> 'e pystate"

definition return_py :: "'a \<Rightarrow> ('a, 'e) py" where
  "return_py x s = (Inr x, s)"

text \<open>Sequencing: an exception raised by the first statement skips the rest.\<close>

definition bind_py :: "('a, 'e) py \<Rightarrow> ('a \<Rightarrow> ('b, 'e) py) \<Rightarrow> ('b, 'e) py" where
  "bind_py m f s = (case m s of (Inl e, s') \<Rightarrow> (Inl e, s') | (Inr x, s') \<Rightarrow> f x s')"

section \<open>The library class\<close>

text \<open>
  Modelled from the spec: the constructor \<open>Options()\<close> of the library, which is not
  under the sources. A fresh object has no argument flag, no experimental option, no
  extension and no binary location; its capabilities are the defaults of the browser.
\<close>

definition default_options :: options where
  "default_options =
     \<lparr> caps = dict_literal [(''browserName'', VStr ''chrome''),
                             (''pageLoadStrategy'', VStr ''normal'')],
       proxy = VNone,
       mobile_options = VNone,
       ignore_local_proxy = False,
       arguments = [],
       binary_location = [],
       extension_files = [],
       extensions = [],
       experimental_options = [],
       debugger_address = VNone \<rparr>"

definition Options_init :: "(addr, 'e) py" where
  "Options_init s =
     (Inr (length (heap s)),
      s\<lparr>heap := heap s @ [OptionsObj default_options], steps := steps s + 1\<rparr>)"

text \<open>
  Modelled from the spec: \<open>Options.add_experimental_option(name, value)\<close> of the
  library stores the value under the name in the dictionary of experimental options.
\<close>

definition Options_add_experimental_option ::
    "string \<Rightarrow> py_value \<Rightarrow> options \<Rightarrow> error + options" where
  "Options_add_experimental_option name v opts =
     Inr (opts\<lparr>experimental_options := AList.update name v (experimental_options opts)\<rparr>)"

text \<open>
  Modelled from the spec: \<open>Options.add_argument(argument)\<close> of the library appends the
  flag to the argument list (the spec's ordered sequence of flags). The library rejects
  an empty flag with \<open>ValueError\<close>; that branch is kept, so that a call that could
  raise is a call that returns \<open>Inl\<close>.
\<close>

definition Options_add_argument :: "string \<Rightarrow> options \<Rightarrow> error + options" where
  "Options_add_argument argument opts =
     (if argument \<noteq> [] then Inr (opts\<lparr>arguments := arguments opts @ [argument]\<rparr>)
      else Inl (ValueError ''argument can not be null''))"

text \<open>
  A method call \<open>ref.m(...)\<close> on an \<open>Options\<close> object mutates the object in the store.
  On an object of another class the attribute lookup fails, as it does for a reference
  outside the store (which Python cannot produce).
\<close>

definition call_method :: "addr \<Rightarrow> (options \<Rightarrow> error + options) \<Rightarrow> (unit, 'e) py" where
  "call_method ref m s =
     (if ref < length (heap s) then
        (case heap s ! ref of
           OptionsObj opts \<Rightarrow>
             (case m opts of
                Inl e \<Rightarrow> (Inl e, s\<lparr>steps := steps s + 1\<rparr>)
              | Inr opts' \<Rightarrow>
                  (Inr (), s\<lparr>heap := (heap s)[ref := OptionsObj opts'],
                             steps := steps s + 1\<rparr>))
         | InstanceObj d \<Rightarrow> (Inl (AttributeError ''no such method''), s))
      else (Inl (AttributeError ''no such object''), s))"

definition add_experimental_option :: "addr \<Rightarrow> string \<Rightarrow> py_value \<Rightarrow> (unit, 'e) py" where
  "add_experimental_option ref name v = call_method ref (Options_add_experimental_option name v)"

definition add_argument :: "addr \<Rightarrow> string \<Rightarrow> (unit, 'e) py" where
  "add_argument ref argument = call_method ref (Options_add_argument argument)"

section \<open>The method of \<open>BrowserOptions\<close>\<close>

text \<open>
  \<open>BrowserOptions.get_chrome_options_with_disabled_popups(self)\<close>, statement by
  statement. The receiver is a reference to the instance the method is called on.
\<close>

definition get_chrome_options_with_disabled_popups :: "addr \<Rightarrow> (addr, 'e) py" where
  "get_chrome_options_with_disabled_popups self =
     bind_py Options_init (\<lambda>options.
     bind_py (add_experimental_option options ''prefs'' (VDict (dict_literal
        [(''credentials_enable_service'', VBool False),
         (''profile.password_manager_enabled'', VBool False),
         (''profile.default_content_setting_values.notifications'', VInt 2),
         (''profile.password_manager_leak_detection'', VBool False),
         (''password_manager_leak_detection'', VBool False)]))) (\<lambda>_.
     bind_py (add_argument options ''--disable-blink-features=AutomationControlled'') (\<lambda>_.
     bind_py (add_argument options ''--disable-extensions'') (\<lambda>_.
     bind_py (add_argument options ''--disable-popup-blocking'') (\<lambda>_.
     bind_py (add_argument options ''--disable-infobars'') (\<lambda>_.
     bind_py (add_argument options ''--disable-save-password-bubble'') (\<lambda>_.
     return_py options)))))))"

section \<open>Reading a result\<close>

text \<open>The object a call returned, read from the store the call left behind.\<close>

definition returned_options :: "(error + addr) \<times> 'e pystate \<Rightarrow> options option" where
  "returned_options r =
     (case fst r of
        Inl e \<Rightarrow> None
      | Inr a \<Rightarrow>
          (if a < length (heap (snd r)) then
             (case heap (snd r) ! a of OptionsObj opts \<Rightarrow> Some opts | InstanceObj d \<Rightarrow> None)
           else None))"

text \<open>
  The two attributes of the spec's configuration: \<open>preferences\<close> is the dictionary
  stored under the experimental option \<open>prefs\<close>, \<open>argumentFlags\<close> is the argument list.
\<close>

definition preferences :: "options \<Rightarrow> py_dict option" where
  "preferences opts =
     (case map_of (experimental_options opts) ''prefs'' of
        Some (VDict d) \<Rightarrow> Some d
      | _ \<Rightarrow> None)"

definition argumentFlags :: "options \<Rightarrow> string list" where
  "argumentFlags opts = arguments opts"

text \<open>
  A caller that invokes the method \<open>n\<close> times in a row on the same receiver and keeps
  the references it got, the first call first.
\<close>

fun repeat_calls :: "nat \<Rightarrow> addr \<Rightarrow> (addr list, 'e) py" where
  "repeat_calls 0 self s = (Inr [], s)"
| "repeat_calls (Suc n) self s =
     (case get_chrome_options_with_disabled_popups self s of
        (Inl e, s') \<Rightarrow> (Inl e, s')
      | (Inr r, s') \<Rightarrow>
          (case repeat_calls n self s' of
             (Inl e, s'') \<Rightarrow> (Inl e, s'')
           | (Inr rs, s'') \<Rightarrow> (Inr (r # rs), s'')))"

text \<open>The object behind a reference in a given state, if it is an \<open>Options\<close> object.\<close>

definition options_at :: "'e pystate \<Rightarrow> addr \<Rightarrow> options option" where
  "options_at s a = returned_options (Inr a, s)"

text \<open>A state to run examples in: one \<open>BrowserOptions\<close> instance, at reference 0.\<close>

definition example_state :: "unit pystate" where
  "example_state = \<lparr> heap = [InstanceObj []], env = (), steps = 0 \<rparr>"

section \<open>What a call computes\<close>

text \<open>The object that every call builds.\<close>

definition built_options :: options where
  "built_options =
     default_options
       \<lparr> arguments :=
           [''--disable-blink-features=AutomationControlled'',
            ''--disable-extensions'',
            ''--disable-popup-blocking'',
            ''--disable-infobars'',
            ''--disable-save-password-bubble''],
         experimental_options :=
           [(''prefs'', VDict
              [(''credentials_enable_service'', VBool False),
               (''profile.password_manager_enabled'', VBool False),
               (''profile.default_content_setting_values.notifications'', VInt 2),
               (''profile.password_manager_leak_detection'', VBool False),
               (''password_manager_leak_detection'', VBool False)])] \<rparr>"

lemma call_method_fresh:
  "call_method (length h) m (s\<lparr>heap := h @ [OptionsObj opts], steps := n\<rparr>) =
     (case m opts of
        Inl e \<Rightarrow> (Inl e, s\<lparr>heap := h @ [OptionsObj opts], steps := Suc n\<rparr>)
      | Inr opts' \<Rightarrow> (Inr (), s\<lparr>heap := h @ [OptionsObj opts'], steps := Suc n\<rparr>))"
  by (simp add: call_method_def split: sum.split)

lemma prefs_literal:
  "dict_literal
     [(''credentials_enable_service'', VBool False),
      (''profile.password_manager_enabled'', VBool False),
      (''profile.default_content_setting_values.notifications'', VInt 2),
      (''profile.password_manager_leak_detection'', VBool False),
      (''password_manager_leak_detection'', VBool False)] =
     [(''credentials_enable_service'', VBool False),
      (''profile.password_manager_enabled'', VBool False),
      (''profile.default_content_setting_values.notifications'', VInt 2),
      (''profile.password_manager_leak_detection'', VBool False),
      (''password_manager_leak_detection'', VBool False)]"
  by (simp add: dict_literal_def)

lemma get_chrome_options_run:
  "get_chrome_options_with_disabled_popups self s =
     (Inr (length (heap s)),
      s\<lparr>heap := heap s @ [OptionsObj built_options], steps := steps s + 7\<rparr>)"
  unfolding get_chrome_options_with_disabled_popups_def
  by (simp add: bind_py_def return_py_def Options_init_def add_experimental_option_def
      add_argument_def call_method_fresh Options_add_experimental_option_def
      Options_add_argument_def prefs_literal built_options_def default_options_def)

lemma repeat_calls_run:
  "repeat_calls n self s =
     (Inr [length (heap s) ..< length (heap s) + n],
      s\<lparr>heap := heap s @ replicate n (OptionsObj built_options), steps := steps s + 7 * n\<rparr>)"
proof (induction n arbitrary: s)
  case 0
  show ?case by simp
next
  case (Suc n)
  have "[length (heap s) ..< length (heap s) + Suc n] =
          length (heap s) # [Suc (length (heap s)) ..< Suc (length (heap s)) + n]"
    by (simp add: upt_conv_Cons)
  then show ?case
    by (simp add: get_chrome_options_run Suc.IH replicate_app_Cons_same)
qed

text \<open>
  The library model is not trivially safe: an empty flag raises, and a method call
  through one reference leaves the object behind any other reference as it was.
\<close>

lemma add_argument_empty_raises:
  "fst (bind_py Options_init (\<lambda>options. add_argument options []) s) =
     Inl (ValueError ''argument can not be null'')"
  by (simp add: bind_py_def Options_init_def add_argument_def call_method_fresh
      Options_add_argument_def)

lemma call_method_other_object:
  "a \<noteq> b \<Longrightarrow> options_at (snd (call_method a m s)) b = options_at s b"
  by (cases "heap s ! a"; cases "m (case heap s ! a of OptionsObj x \<Rightarrow> x)")
     (auto simp: call_method_def options_at_def returned_options_def)

section \<open>The claims\<close>

text \<open>
  C1. Whatever the receiver and the state the method is called in, the preferences map of
  the returned configuration has exactly the five keys
  \<open>credentials_enable_service\<close>, \<open>profile.password_manager_enabled\<close>,
  \<open>profile.default_content_setting_values.notifications\<close>,
  \<open>profile.password_manager_leak_detection\<close> and \<open>password_manager_leak_detection\<close>,
  each once, mapped to \<open>False\<close>, \<open>False\<close>, \<open>2\<close>, \<open>False\<close> and \<open>False\<close>.
\<close>

theorem preferences_exactly_five:
  "\<exists>opts d.
     returned_options (get_chrome_options_with_disabled_popups self s) = Some opts \<and>
     preferences opts = Some d \<and>
     distinct (map fst d) \<and>
     set (map fst d) =
       {''credentials_enable_service'',
        ''profile.password_manager_enabled'',
        ''profile.default_content_setting_values.notifications'',
        ''profile.password_manager_leak_detection'',
        ''password_manager_leak_detection''} \<and>
     map_of d ''credentials_enable_service'' = Some (VBool False) \<and>
     map_of d ''profile.password_manager_enabled'' = Some (VBool False) \<and>
     map_of d ''profile.default_content_setting_values.notifications'' = Some (VInt 2) \<and>
     map_of d ''profile.password_manager_leak_detection'' = Some (VBool False) \<and>
     map_of d ''password_manager_leak_detection'' = Some (VBool False)"
  by (simp add: get_chrome_options_run returned_options_def preferences_def
      built_options_def default_options_def)

text \<open>
  C2. The argument flags of the returned configuration are, in this order,
  \<open>--disable-blink-features=AutomationControlled\<close>, \<open>--disable-extensions\<close>,
  \<open>--disable-popup-blocking\<close>, \<open>--disable-infobars\<close> and
  \<open>--disable-save-password-bubble\<close>: five flags, none of them twice.
\<close>

theorem argument_flags_exact:
  "\<exists>opts.
     returned_options (get_chrome_options_with_disabled_popups self s) = Some opts \<and>
     length (argumentFlags opts) = 5 \<and>
     distinct (argumentFlags opts) \<and>
     argumentFlags opts =
       [''--disable-blink-features=AutomationControlled'',
        ''--disable-extensions'',
        ''--disable-popup-blocking'',
        ''--disable-infobars'',
        ''--disable-save-password-bubble'']"
  by (simp add: get_chrome_options_run returned_options_def argumentFlags_def
      built_options_def default_options_def)

text \<open>
  C3. The method is deterministic and pure. Two calls, in any two states, return
  value-equal configurations. A call leaves the environment that I/O could reach as it
  was, and its only effect on the store is the one object it returns, allocated behind
  the objects that were there, which it leaves untouched.
\<close>

theorem deterministic_and_pure:
  "\<exists>opts.
     returned_options (get_chrome_options_with_disabled_popups self s1) = Some opts \<and>
     returned_options (get_chrome_options_with_disabled_popups self s2) = Some opts \<and>
     env (snd (get_chrome_options_with_disabled_popups self s1)) = env s1 \<and>
     heap (snd (get_chrome_options_with_disabled_popups self s1)) = heap s1 @ [OptionsObj opts]"
  by (simp add: get_chrome_options_run returned_options_def)

text \<open>
  C4. In the configuration of every call, the preference
  \<open>profile.default_content_setting_values.notifications\<close> is \<open>2\<close> and the argument
  flag at index 2, counting from zero, is \<open>--disable-popup-blocking\<close>.
\<close>

theorem notifications_and_third_flag:
  "\<exists>opts d.
     returned_options (get_chrome_options_with_disabled_popups self s) = Some opts \<and>
     preferences opts = Some d \<and>
     map_of d ''profile.default_content_setting_values.notifications'' = Some (VInt 2) \<and>
     argumentFlags opts ! 2 = ''--disable-popup-blocking''"
  by (simp add: get_chrome_options_run returned_options_def preferences_def argumentFlags_def
      built_options_def default_options_def)

text \<open>
  C5. Calling the method \<open>n\<close> times in a row gives \<open>n\<close> references, no two of them the
  same, so each call built an object of its own. In the state after the last call every
  one of them still holds the configuration that a single call returns, so no call changed
  what an earlier one produced; the objects that existed before the first call and the
  environment are as they were.
\<close>

theorem repeated_calls_fresh_and_equal:
  "\<exists>refs s' opts.
     repeat_calls n self s = (Inr refs, s') \<and>
     length refs = n \<and>
     distinct refs \<and>
     returned_options (get_chrome_options_with_disabled_popups self s) = Some opts \<and>
     map (options_at s') refs = replicate n (Some opts) \<and>
     take (length (heap s)) (heap s') = heap s \<and>
     length (heap s') = length (heap s) + n \<and>
     env s' = env s"
proof -
  let ?h = "heap s @ replicate n (OptionsObj built_options)"
  let ?s' = "s\<lparr>heap := ?h, steps := steps s + 7 * n\<rparr>"
  have "map (options_at ?s') [length (heap s) ..< length (heap s) + n] =
          replicate n (Some built_options)"
    by (rule nth_equalityI) (simp_all add: options_at_def returned_options_def nth_append)
  then show ?thesis
    by (simp add: repeat_calls_run get_chrome_options_run returned_options_def)
qed

text \<open>
  C6. The method has no failure mode: for every receiver and every state the call
  returns a reference and raises nothing.
\<close>

theorem never_raises:
  "\<exists>r. fst (get_chrome_options_with_disabled_popups self s) = Inr r"
  by (simp add: get_chrome_options_run)

text \<open>
  C7. The preferences of every returned configuration hold both
  \<open>profile.password_manager_leak_detection\<close> and the unnamespaced
  \<open>password_manager_leak_detection\<close>, as two entries, and both are \<open>False\<close>.
\<close>

theorem leak_detection_both_keys:
  "\<exists>opts d.
     returned_options (get_chrome_options_with_disabled_popups self s) = Some opts \<and>
     preferences opts = Some d \<and>
     map_of d ''profile.password_manager_leak_detection'' = Some (VBool False) \<and>
     map_of d ''password_manager_leak_detection'' = Some (VBool False) \<and>
     count_list (map fst d) ''profile.password_manager_leak_detection'' = 1 \<and>
     count_list (map fst d) ''password_manager_leak_detection'' = 1"
  by (simp add: get_chrome_options_run returned_options_def preferences_def
      built_options_def default_options_def)

text \<open>
  C8. Every call terminates: the method is a straight line of seven library calls, with
  no recursion and no loop, so in every state it returns, after exactly seven steps.
\<close>

theorem terminates_in_seven_steps:
  "\<exists>r s'. get_chrome_options_with_disabled_popups self s = (Inr r, s') \<and>
     steps s' = steps s + 7"
  by (simp add: get_chrome_options_run)

text \<open>
  C9. The result does not depend on the receiver. Called on any two references, in any
  two states (so whatever the instances hold), the method returns value-equal
  configurations, and every object that existed before the call, the receiver among
  them, is unchanged after it.
\<close>

theorem receiver_independent:
  "\<exists>opts.
     returned_options (get_chrome_options_with_disabled_popups self1 s1) = Some opts \<and>
     returned_options (get_chrome_options_with_disabled_popups self2 s2) = Some opts \<and>
     take (length (heap s1)) (heap (snd (get_chrome_options_with_disabled_popups self1 s1)))
       = heap s1 \<and>
     take (length (heap s2)) (heap (snd (get_chrome_options_with_disabled_popups self2 s2)))
       = heap s2"
  by (simp add: get_chrome_options_run returned_options_def)

text \<open>
  C10, as stated, fails: the claim leaves every field but the experimental options at
  the value of a fresh \<open>Options()\<close>, and the argument list of the returned object is
  not the empty list of a fresh object, since the method goes on to add five flags.
\<close>

theorem all_other_fields_default_counterexample:
  "map_option arguments
     (returned_options (get_chrome_options_with_disabled_popups 0 example_state))
     \<noteq> Some (arguments default_options)"
  by (simp add: get_chrome_options_run returned_options_def built_options_def
      default_options_def)

text \<open>
  C10, amended. The returned object carries exactly one experimental option, keyed
  \<open>prefs\<close>, and every field other than the experimental options and the argument list
  (capabilities, proxy, mobile options, binary location, extension files, extensions,
  debugger address) has the value of a fresh \<open>Options()\<close>.
\<close>

theorem only_prefs_and_flags_set:
  "\<exists>opts.
     returned_options (get_chrome_options_with_disabled_popups self s) = Some opts \<and>
     map fst (experimental_options opts) = [''prefs''] \<and>
     caps opts = caps default_options \<and>
     proxy opts = proxy default_options \<and>
     mobile_options opts = mobile_options default_options \<and>
     ignore_local_proxy opts = ignore_local_proxy default_options \<and>
     binary_location opts = binary_location default_options \<and>
     extension_files opts = extension_files default_options \<and>
     extensions opts = extensions default_options \<and>
     debugger_address opts = debugger_address default_options"
  by (simp add: get_chrome_options_run returned_options_def built_options_def)

end
